theory Spec2Isabelle
  imports Complex_Main
begin

section \<open>Arrays, errors and constants\<close>

text \<open>
  The Python sources compute with NumPy arrays of floating-point numbers. Here a
  one-dimensional array is a list of reals and a two-dimensional array a list of rows;
  the arithmetic is that of the real numbers. An exception is a value of type
  \<open>error\<close>: \<open>AttributeError\<close> is what \<^verbatim>\<open>getattr\<close> raises for an attribute
  that the object does not have, \<open>ValueError\<close> is what NumPy raises for operands whose
  shapes cannot be broadcast together and what \<^verbatim>\<open>np.interp\<close> raises for
  unusable sample arrays.
\<close>

datatype error = AttributeError string | ValueError

type_synonym matrix = "real list list"

text \<open>\<^verbatim>\<open>np.zeros((m, n))\<close>\<close>

definition zeros :: "nat \<Rightarrow> nat \<Rightarrow> matrix" where
  "zeros m n = replicate m (replicate n 0)"

text \<open>\<^verbatim>\<open>NLOSCHMIDT = 2.6868e19\<close> (compare_trace_gas_absorption.py, line 9).\<close>

definition NLOSCHMIDT :: real where
  "NLOSCHMIDT = 2.6868 * 10 ^ 19"

section \<open>The single-gas optical depth (python_gas_analysis.py)\<close>

text \<open>
  The object \<^verbatim>\<open>self\<close> of class \<^verbatim>\<open>SingleGasUMG\<close>. The base class
  \<^verbatim>\<open>UMGTransmittance\<close> comes from the package \<^verbatim>\<open>transmission_fitter\<close>, which is
  not part of the repository; what \<^verbatim>\<open>_optical_depth\<close> reads from it is a field of the
  record:
  \<^item> \<open>attrs\<close> holds the absorption tables, the attributes \<^verbatim>\<open>o2abs\<close>, \<^verbatim>\<open>ch4abs\<close>, ...
    looked up by name with \<^verbatim>\<open>getattr\<close>;
  \<^item> \<open>Airmass_from_SMARTS\<close> gives the airmass of one zenith angle for a constituent;
    on the array \<^verbatim>\<open>sza\<close> it is applied to each angle, and the factor of an angle
    multiplies the row of that angle.
\<close>

record SingleGasUMG =
  tair :: real
  co2_ppm :: real
  with_trace_gases :: bool
  target_gas :: string
  wvl_arr :: "real list"
  attrs :: "string \<rightharpoonup> real list"
  Airmass_from_SMARTS :: "real \<Rightarrow> string \<Rightarrow> real"

text \<open>\<^verbatim>\<open>getam(constituent)\<close>: one airmass per zenith angle.\<close>

definition getam :: "SingleGasUMG \<Rightarrow> real list \<Rightarrow> string \<Rightarrow> real list" where
  "getam self sza constituent = map (\<lambda>z. Airmass_from_SMARTS self z constituent) sza"

text \<open>\<^verbatim>\<open>getabs(constituent)\<close>: the attribute named \<^verbatim>\<open>f'{constituent}abs'\<close>, as one row.\<close>

definition getabs :: "SingleGasUMG \<Rightarrow> string \<Rightarrow> error + real list" where
  "getabs self constituent =
     (case attrs self (constituent @ ''abs'') of
        None \<Rightarrow> Inl (AttributeError (constituent @ ''abs''))
      | Some a \<Rightarrow> Inr a)"

text \<open>
  The product \<^verbatim>\<open>getabs(c) * abundance * getam(c')\<close> of a row of \<open>k\<close> coefficients, a
  scalar and a column of airmasses: one row of \<open>k\<close> values per zenith angle.
\<close>

definition outer :: "real list \<Rightarrow> real \<Rightarrow> real list \<Rightarrow> matrix" where
  "outer a abundance am = map (\<lambda>m. map (\<lambda>x. x * abundance * m) a) am"

text \<open>Elementwise sum of two arrays of one shape.\<close>

definition madd :: "matrix \<Rightarrow> matrix \<Rightarrow> matrix" where
  "madd A B = map2 (map2 (+)) A B"

text \<open>
  \<^verbatim>\<open>taug_l += term\<close>, where \<open>taug_l\<close> has \<open>n\<close> columns and \<open>term\<close> has \<open>k\<close>: NumPy adds
  elementwise when \<open>k = n\<close>, repeats the single column when \<open>k = 1\<close>, and raises
  otherwise (also when there is no row).
\<close>

definition iadd :: "nat \<Rightarrow> matrix \<Rightarrow> nat \<Rightarrow> matrix \<Rightarrow> error + matrix" where
  "iadd n taug_l k term =
     (if k = n then Inr (madd taug_l term)
      else if k = 1 then Inr (map2 (\<lambda>row trow. map (\<lambda>t. t + hd trow) row) taug_l term)
      else Inl ValueError)"

text \<open>
  One accumulation statement
  \<^verbatim>\<open>taug_l += getabs(c) * abundance * getam(c')\<close>: the table is looked up first, then
  the product is formed and added in place.
\<close>

definition add_term ::
  "SingleGasUMG \<Rightarrow> real list \<Rightarrow> string \<Rightarrow> real \<Rightarrow> string \<Rightarrow> matrix \<Rightarrow> error + matrix" where
  "add_term self sza c abundance c' taug_l =
     (case getabs self c of
        Inl e \<Rightarrow> Inl e
      | Inr a \<Rightarrow> iadd (length (wvl_arr self)) taug_l (length a)
                  (outer a abundance (getam self sza c')))"

text \<open>
  One guarded block \<^verbatim>\<open>if cond: ...\<close> of the method: it is reached only when no
  earlier statement has raised.
\<close>

definition branch ::
  "bool \<Rightarrow> (matrix \<Rightarrow> error + matrix) \<Rightarrow> error + matrix \<Rightarrow> error + matrix" where
  "branch cond body r =
     (case r of Inl e \<Rightarrow> Inl e
      | Inr taug_l \<Rightarrow> if cond then body taug_l else Inr taug_l)"

text \<open>
  \<^verbatim>\<open>SingleGasUMG._optical_depth(self, pp0, sza)\<close>, lines 34 to 93. The pressure ratio
  \<open>pp0\<close> is a scalar and \<open>sza\<close> the array of zenith angles. A power with a
  floating-point exponent is \<open>powr\<close>, a power with an integer exponent is \<open>^\<close>.
\<close>

definition optical_depth :: "SingleGasUMG \<Rightarrow> real \<Rightarrow> real list \<Rightarrow> error + matrix" where
  "optical_depth self pp0 sza =
     (let tt0 = 0 + (tair self + 273.15) / 273.15;
          tg = target_gas self;
          r0 = Inr (zeros (length sza) (length (wvl_arr self)));
          r1 = branch (tg = ''O2'' \<or> tg = ''ALL'')
                 (add_term self sza ''o2'' (1.67766 * 10 ^ 5 * pp0) ''o2'') r0;
          r2 = branch (tg = ''CH4'' \<or> tg = ''ALL'')
                 (add_term self sza ''ch4'' (1.3255 * (pp0 powr 1.0574)) ''ch4'') r1;
          r3 = branch (tg = ''CO'' \<or> tg = ''ALL'')
                 (add_term self sza ''co''
                    (0.29625 * (pp0 powr 2.4480) *
                       exp (0.54669 - 2.4114 * pp0 + 0.65756 * (pp0 ^ 2))) ''co'') r2;
          r4 = branch (tg = ''N2O'' \<or> tg = ''ALL'')
                 (add_term self sza ''n2o'' (0.24730 * (pp0 powr 1.0791)) ''n2o'') r3;
          r5 = branch (tg = ''CO2'' \<or> tg = ''ALL'')
                 (add_term self sza ''co2'' (0.802685 * co2_ppm self * pp0) ''co2'') r4;
          r6 = branch (tg = ''N2'' \<or> tg = ''ALL'')
                 (add_term self sza ''n2'' (3.8269 * (pp0 powr 1.8374)) ''n2'') r5;
          r7 = branch (tg = ''O4'' \<or> tg = ''ALL'')
                 (add_term self sza ''o4''
                    (1.8171 * 10 ^ 4 * (NLOSCHMIDT ^ 2) * (pp0 powr 1.7984) / (tt0 powr 0.344))
                    ''o2'') r6;
          r8 = branch (with_trace_gases self \<and> (tg = ''NH3'' \<or> tg = ''ALL''))
                 (let lpp0 = ln pp0 in
                  add_term self sza ''nh3''
                    (exp (- 8.6499 + 2.1947 * lpp0 - 2.5936 * (lpp0 ^ 2)
                          - 1.819 * (lpp0 ^ 3) - 0.65854 * (lpp0 ^ 4))) ''nh3'') r7
      in r8)"

text \<open>
  Modelled from the spec: \<^verbatim>\<open>make_transmission\<close> of the base class, which turns the
  optical depth into the transmittance, is not in the sources. The specification (4.4)
  gives it as the Beer-Lambert relation \<open>T = exp (- \<tau>)\<close>, elementwise.
\<close>

definition beer_lambert :: "matrix \<Rightarrow> matrix" where
  "beer_lambert tau = map (map (\<lambda>t. exp (- t))) tau"

text \<open>
  The species names that \<^verbatim>\<open>main\<close> passes as \<^verbatim>\<open>target_gas\<close>, one after the other
  (line 146: \<^verbatim>\<open>gases = ['O2', 'CH4', 'CO', 'N2O', 'CO2', 'N2', 'O4', 'NH3']\<close>).
\<close>

definition gases :: "string list" where
  "gases = [''O2'', ''CH4'', ''CO'', ''N2O'', ''CO2'', ''N2'', ''O4'', ''NH3'']"

subsection \<open>Well-formed absorption tables\<close>

text \<open>
  The invariant of the data model: the object has the table of a constituent, and the
  table has one coefficient per wavelength of the grid.
\<close>

definition table_ok :: "SingleGasUMG \<Rightarrow> string \<Rightarrow> bool" where
  "table_ok self c =
     (case attrs self (c @ ''abs'') of
        None \<Rightarrow> False
      | Some a \<Rightarrow> length a = length (wvl_arr self))"

definition tables_ok :: "SingleGasUMG \<Rightarrow> bool" where
  "tables_ok self =
     list_all (table_ok self) [''o2'', ''ch4'', ''co'', ''n2o'', ''co2'', ''n2'', ''o4'', ''nh3'']"

definition table :: "SingleGasUMG \<Rightarrow> string \<Rightarrow> real list" where
  "table self c = (case attrs self (c @ ''abs'') of None \<Rightarrow> [] | Some a \<Rightarrow> a)"

text \<open>An array of \<open>m\<close> rows and \<open>n\<close> columns.\<close>

definition shaped :: "nat \<Rightarrow> nat \<Rightarrow> matrix \<Rightarrow> bool" where
  "shaped m n A \<longleftrightarrow> length A = m \<and> list_all (\<lambda>row. length row = n) A"

subsection \<open>The statements of the specification, for comparison\<close>

text \<open>
  The constituent identity of a species: its own name in lower case. This is the airmass
  that the specification's reading "every species uses the airmass of its own
  constituent" gives to a species.
\<close>

definition own_constituent :: "string \<Rightarrow> string" where
  "own_constituent g =
     (if g = ''O2'' then ''o2'' else if g = ''CH4'' then ''ch4''
      else if g = ''CO'' then ''co'' else if g = ''N2O'' then ''n2o''
      else if g = ''CO2'' then ''co2'' else if g = ''N2'' then ''n2''
      else if g = ''O4'' then ''o4'' else if g = ''NH3'' then ''nh3'' else g)"

text \<open>
  The constituent whose airmass a species is multiplied with: its own, except that the
  oxygen collision complex O4 takes the airmass of O2.
\<close>

definition airmass_constituent :: "string \<Rightarrow> string" where
  "airmass_constituent g = (if g = ''O4'' then ''o2'' else own_constituent g)"

text \<open>
  The column abundances as the specification (4.2) writes them, for a species, the
  pressure ratio, the temperature in degrees Celsius and the CO2 mixing ratio.
\<close>

definition spec_abundance :: "string \<Rightarrow> real \<Rightarrow> real \<Rightarrow> real \<Rightarrow> real" where
  "spec_abundance g pp0 temperature_C co2 =
     (let tt0 = (temperature_C + 273.15) / 273.15; N_L = 2.6868 * 10 ^ 19; l = ln pp0 in
      if g = ''O2'' then 1.67766 * 10 ^ 5 * pp0
      else if g = ''CH4'' then 1.3255 * pp0 powr 1.0574
      else if g = ''CO'' then
        0.29625 * pp0 powr 2.448 * exp (0.54669 - 2.4114 * pp0 + 0.65756 * pp0\<^sup>2)
      else if g = ''N2O'' then 0.24730 * pp0 powr 1.0791
      else if g = ''CO2'' then 0.802685 * co2 * pp0
      else if g = ''N2'' then 3.8269 * pp0 powr 1.8374
      else if g = ''O4'' then 1.8171 * 10 ^ 4 * N_L\<^sup>2 * pp0 powr 1.7984 / tt0 powr 0.344
      else if g = ''NH3'' then
        exp (- 8.6499 + 2.1947 * l - 2.5936 * l\<^sup>2 - 1.819 * l ^ 3 - 0.65854 * l ^ 4)
      else 0)"

text \<open>
  The NH3 term contributes to the spectrum when the returned spectrum depends on the NH3
  coefficients: the method returns a spectrum, and with some other NH3 table of the
  length of the grid in its place it returns a different spectrum.
\<close>

definition nh3_contributes :: "SingleGasUMG \<Rightarrow> real \<Rightarrow> real list \<Rightarrow> bool" where
  "nh3_contributes self pp0 sza =
     (\<exists>a tau tau'. length a = length (wvl_arr self)
        \<and> optical_depth self pp0 sza = Inr tau
        \<and> optical_depth (self\<lparr>attrs := (attrs self)(''nh3abs'' \<mapsto> a)\<rparr>) pp0 sza = Inr tau'
        \<and> tau' \<noteq> tau)"

text \<open>A result that is a spectrum of \<open>m\<close> rows and \<open>n\<close> columns.\<close>

definition returns_shaped :: "nat \<Rightarrow> nat \<Rightarrow> error + matrix \<Rightarrow> bool" where
  "returns_shaped m n r = (case r of Inl e \<Rightarrow> False | Inr tau \<Rightarrow> shaped m n tau)"

subsection \<open>A concrete model object\<close>

text \<open>
  The test conditions of \<^verbatim>\<open>main\<close> (temperature 15, CO2 415 ppm, standard pressure, so
  \<open>pp0 = 1\<close>), on a grid of one wavelength, with made-up coefficients and airmasses.
\<close>

definition demo_attrs :: "string \<rightharpoonup> real list" where
  "demo_attrs = map_of
     [(''o2abs'', [1]), (''ch4abs'', [2]), (''coabs'', [3]), (''n2oabs'', [4]),
      (''co2abs'', [5]), (''n2abs'', [6]), (''o4abs'', [7]), (''nh3abs'', [8])]"

definition demo :: SingleGasUMG where
  "demo = \<lparr>tair = 15, co2_ppm = 415, with_trace_gases = True, target_gas = ''ALL'',
            wvl_arr = [760], attrs = demo_attrs,
            Airmass_from_SMARTS = (\<lambda>z c. if c = ''o4'' then 3 else 2)\<rparr>"

section \<open>Trace-gas abundances (compare_trace_gas_absorption.py)\<close>

text \<open>
  Lines 43 and 61 of the script, as functions of the pressure ratio; the script
  evaluates them at \<open>pp0 = p_ / 1013.25\<close> with \<open>p_ = 1013.25\<close>.
\<close>

definition no2_abundance :: "real \<Rightarrow> real" where
  "no2_abundance pp0 = 1 / 10 ^ 4 * min (1.8599 + 0.18453 * pp0) (41.771 * pp0)"

definition so2_abundance :: "real \<Rightarrow> real" where
  "so2_abundance pp0 =
     1 / 10 ^ 4 * 0.11133 * (pp0 powr 0.812) *
       exp (0.81319 + 3.0557 * (pp0 ^ 2) - 1.578 * (pp0 ^ 3))"

section \<open>The total transmission (compare_matlab_python_transmission.py)\<close>

text \<open>
  \<^verbatim>\<open>np.interp(x, xp, fp)\<close> belongs to NumPy. Its model follows NumPy's documented
  behaviour: it raises \<^verbatim>\<open>ValueError\<close> when \<open>xp\<close> is empty or when \<open>fp\<close> and \<open>xp\<close>
  differ in length; otherwise each point of \<open>x\<close> below the first sample gets the first
  value, each point above the last sample gets the last value, and a point with
  \<open>xp[j] \<le> x < xp[j+1]\<close> gets \<open>fp[j]\<close> when \<open>x = xp[j]\<close> and
  \<open>(fp[j+1] - fp[j]) / (xp[j+1] - xp[j]) * (x - xp[j]) + fp[j]\<close> otherwise. NumPy finds
  \<open>j\<close> by bisection and does not check that \<open>xp\<close> increases; \<open>locate\<close> walks through
  the samples from the left, which finds the same \<open>j\<close> whenever \<open>xp\<close> is nondecreasing.
  \<open>interp\<close> calls \<open>locate\<close> only on nonempty arrays of one length, so the last
  equation of \<open>locate\<close> is never reached.
\<close>

fun locate :: "real \<Rightarrow> real list \<Rightarrow> real list \<Rightarrow> real" where
  "locate v (x0 # x1 # xs) (f0 # f1 # fs) =
     (if v < x1 then (if x0 = v then f0 else (f1 - f0) / (x1 - x0) * (v - x0) + f0)
      else locate v (x1 # xs) (f1 # fs))"
| "locate v [x0] (f0 # fs) = f0"
| "locate v xs fs = 0"

definition interp1 :: "real \<Rightarrow> real list \<Rightarrow> real list \<Rightarrow> real" where
  "interp1 v xp fp = (if v < hd xp then hd fp else locate v xp fp)"

definition interp :: "real list \<Rightarrow> real list \<Rightarrow> real list \<Rightarrow> error + real list" where
  "interp x xp fp =
     (if xp = [] then Inl ValueError
      else if length fp \<noteq> length xp then Inl ValueError
      else Inr (map (\<lambda>v. interp1 v xp fp) x))"

text \<open>
  A component model after \<^verbatim>\<open>make_transmission()\<close>: its own wavelength grid
  (the attribute \<^verbatim>\<open>wvl_arr\<close>) and the transmission on that grid, both one-dimensional
  arrays. The classes that compute them belong to \<^verbatim>\<open>transmission_fitter\<close>.
\<close>

record component =
  grid :: "real list"
  trans :: "real list"

text \<open>
  Lines 44 to 70: the five interpolations in the order of the script, each one able to
  raise, and the elementwise product \<^verbatim>\<open>trans_total\<close> of the five results.
\<close>

definition trans_total ::
  "real list \<Rightarrow> component \<Rightarrow> component \<Rightarrow> component \<Rightarrow> component \<Rightarrow> component
     \<Rightarrow> error + real list" where
  "trans_total wavelengths ray oz water aer umg =
     (case interp wavelengths (grid ray) (trans ray) of Inl e \<Rightarrow> Inl e
      | Inr trans_ray_interp \<Rightarrow>
     (case interp wavelengths (grid oz) (trans oz) of Inl e \<Rightarrow> Inl e
      | Inr trans_oz_interp \<Rightarrow>
     (case interp wavelengths (grid water) (trans water) of Inl e \<Rightarrow> Inl e
      | Inr trans_water_interp \<Rightarrow>
     (case interp wavelengths (grid aer) (trans aer) of Inl e \<Rightarrow> Inl e
      | Inr trans_aer_interp \<Rightarrow>
     (case interp wavelengths (grid umg) (trans umg) of Inl e \<Rightarrow> Inl e
      | Inr trans_umg_interp \<Rightarrow>
        Inr (map2 (*) (map2 (*) (map2 (*) (map2 (*) trans_ray_interp trans_oz_interp)
               trans_water_interp) trans_aer_interp) trans_umg_interp))))))"

text \<open>
  Clamped linear interpolation as the specification (4.6) words it: the first value at
  and below the first grid point, the last value at and above the last one, and on the
  straight line between two neighbouring grid points.
\<close>

definition clamped_linear :: "real list \<Rightarrow> real list \<Rightarrow> real \<Rightarrow> real \<Rightarrow> bool" where
  "clamped_linear xp fp x y \<longleftrightarrow>
     (x \<le> hd xp \<longrightarrow> y = hd fp) \<and>
     (last xp \<le> x \<longrightarrow> y = last fp) \<and>
     (\<forall>j. Suc j < length xp \<and> xp ! j \<le> x \<and> x \<le> xp ! Suc j \<longrightarrow>
        y = fp ! j + (fp ! Suc j - fp ! j) * (x - xp ! j) / (xp ! Suc j - xp ! j))"

text \<open>A usable component: a strictly increasing grid of at least one point, one value per point.\<close>

definition component_ok :: "component \<Rightarrow> bool" where
  "component_ok c \<longleftrightarrow> grid c \<noteq> [] \<and> sorted_wrt (<) (grid c) \<and> length (trans c) = length (grid c)"

definition one_point :: component where
  "one_point = \<lparr>grid = [500], trans = [1 / 2]\<rparr>"

definition two_points :: component where
  "two_points = \<lparr>grid = [400, 600], trans = [1 / 2, 1]\<rparr>"

section \<open>Basic facts about the arrays\<close>

lemma branch_False: "\<not> cond \<Longrightarrow> branch cond body r = r"
  by (simp add: branch_def split: sum.splits)

lemma branch_True: "branch True body (Inr t) = body t"
  by (simp add: branch_def)

lemma optical_depth_no_branch:
  assumes "target_gas self \<notin> set [''O2'', ''CH4'', ''CO'', ''N2O'', ''CO2'', ''N2'', ''O4'', ''ALL'']"
    and "\<not> (with_trace_gases self \<and> target_gas self = ''NH3'')"
  shows "optical_depth self pp0 sza = Inr (zeros (length sza) (length (wvl_arr self)))"
  using assms by (simp add: optical_depth_def Let_def branch_False)

lemma beer_lambert_zeros: "beer_lambert (zeros m n) = replicate m (replicate n 1)"
  by (simp add: beer_lambert_def zeros_def)

subsection \<open>Adding a term to the accumulator\<close>

lemma map2_add_replicate_zero:
  "length xs = n \<Longrightarrow> map2 (+) (replicate n (0::real)) xs = xs"
  by (induction xs arbitrary: n) auto

lemma madd_zeros:
  assumes "length B = m" and "\<forall>row \<in> set B. length row = n"
  shows "madd (zeros m n) B = B"
  using assms unfolding madd_def zeros_def
  by (induction B arbitrary: m) (auto simp: map2_add_replicate_zero)

lemma length_getam [simp]: "length (getam self sza c) = length sza"
  by (simp add: getam_def)

lemma madd_zeros_outer:
  "length a = n \<Longrightarrow> length am = m \<Longrightarrow> madd (zeros m n) (outer a ab am) = outer a ab am"
  by (rule madd_zeros) (auto simp: outer_def)

lemma table_ok_length: "table_ok self c \<Longrightarrow> length (table self c) = length (wvl_arr self)"
  by (simp add: table_ok_def table_def split: option.splits)

lemma add_term_ok:
  assumes "table_ok self c"
  shows "add_term self sza c ab c' taug_l
           = Inr (madd taug_l (outer (table self c) ab (getam self sza c')))"
  using assms
  by (auto simp: add_term_def getabs_def table_ok_def table_def iadd_def split: option.splits)

lemma add_term_zeros:
  assumes "table_ok self c"
  shows "add_term self sza c ab c' (zeros (length sza) (length (wvl_arr self)))
           = Inr (outer (table self c) ab (getam self sza c'))"
  using assms by (simp add: add_term_ok madd_zeros_outer table_ok_length)

lemma add_term_cong:
  "wvl_arr s = wvl_arr s' \<Longrightarrow> attrs s = attrs s' \<Longrightarrow>
   Airmass_from_SMARTS s = Airmass_from_SMARTS s' \<Longrightarrow> add_term s = add_term s'"
  by (intro ext) (simp add: add_term_def getabs_def getam_def split: option.splits)

lemma add_term_target [simp]: "add_term (self\<lparr>target_gas := g\<rparr>) = add_term self"
  by (rule add_term_cong) simp_all

lemma add_term_tair [simp]: "add_term (self\<lparr>tair := t\<rparr>) = add_term self"
  by (rule add_term_cong) simp_all

lemma tables_okD:
  "tables_ok self \<Longrightarrow> table_ok self ''o2'' \<and> table_ok self ''ch4'' \<and> table_ok self ''co''
     \<and> table_ok self ''n2o'' \<and> table_ok self ''co2'' \<and> table_ok self ''n2''
     \<and> table_ok self ''o4'' \<and> table_ok self ''nh3''"
  by (simp add: tables_ok_def)

lemma single_species_depth:
  assumes "tables_ok self" and "with_trace_gases self" and "g \<in> set gases"
  shows "optical_depth (self\<lparr>target_gas := g\<rparr>) pp0 sza
           = Inr (outer (table self (own_constituent g))
                    (spec_abundance g pp0 (tair self) (co2_ppm self))
                    (getam self sza (airmass_constituent g)))"
proof -
  note ok = tables_okD [OF assms(1)]
  note defs = optical_depth_def Let_def branch_False branch_True add_term_zeros
          own_constituent_def airmass_constituent_def spec_abundance_def NLOSCHMIDT_def
  have "g = ''O2'' \<or> g = ''CH4'' \<or> g = ''CO'' \<or> g = ''N2O'' \<or> g = ''CO2''
    \<or> g = ''N2'' \<or> g = ''O4'' \<or> g = ''NH3''"
    using assms(3) by (simp add: gases_def)
  then show ?thesis
  proof (elim disjE)
    assume "g = ''O2''" then show ?thesis using ok by (simp add: defs)
  next
    assume "g = ''CH4''" then show ?thesis using ok by (simp add: defs)
  next
    assume "g = ''CO''" then show ?thesis using ok by (simp add: defs)
  next
    assume "g = ''N2O''" then show ?thesis using ok by (simp add: defs)
  next
    assume "g = ''CO2''" then show ?thesis using ok by (simp add: defs)
  next
    assume "g = ''N2''" then show ?thesis using ok by (simp add: defs)
  next
    assume "g = ''O4''" then show ?thesis using ok by (simp add: defs)
  next
    assume "g = ''NH3''" then show ?thesis using ok assms(2) by (simp add: defs)
  qed
qed

lemma all_species_depth:
  assumes "tables_ok self" and "with_trace_gases self"
  shows "optical_depth (self\<lparr>target_gas := ''ALL''\<rparr>) pp0 sza
           = Inr (foldl madd (zeros (length sza) (length (wvl_arr self)))
                   (map (\<lambda>g. outer (table self (own_constituent g))
                    (spec_abundance g pp0 (tair self) (co2_ppm self))
                    (getam self sza (airmass_constituent g))) gases))"
  using tables_okD [OF assms(1)] assms(2)
  by (simp add: optical_depth_def Let_def branch_True add_term_ok gases_def
          own_constituent_def airmass_constituent_def spec_abundance_def NLOSCHMIDT_def)

lemma getam_airmass [simp]:
  "getam (self\<lparr>Airmass_from_SMARTS := am\<rparr>) sza c = map (\<lambda>z. am z c) sza"
  by (simp add: getam_def)

lemma table_ok_airmass [simp]: "table_ok (self\<lparr>Airmass_from_SMARTS := am\<rparr>) c = table_ok self c"
  by (simp add: table_ok_def split: option.splits)

lemma table_airmass [simp]: "table (self\<lparr>Airmass_from_SMARTS := am\<rparr>) c = table self c"
  by (simp add: table_def)

lemma tables_ok_airmass [simp]: "tables_ok (self\<lparr>Airmass_from_SMARTS := am\<rparr>) = tables_ok self"
  by (simp add: tables_ok_def)


section \<open>Selections that match no block\<close>

text \<open>
  C10. With \<^verbatim>\<open>target_gas = 'NH3'\<close> and \<^verbatim>\<open>with_trace_gases = False\<close> the method raises
  nothing and returns the optical depth that is zero at every zenith angle and
  wavelength; the transmittance derived from a zero optical depth is one everywhere; and
  the method returns the same zero optical depth for every \<^verbatim>\<open>target_gas\<close> that is
  neither \<^verbatim>\<open>'ALL'\<close> nor one of the eight species names.
\<close>

theorem silent_zero_for_excluded_selection:
  "optical_depth (self\<lparr>target_gas := ''NH3'', with_trace_gases := False\<rparr>) pp0 sza
     = Inr (zeros (length sza) (length (wvl_arr self)))
   \<and> beer_lambert (zeros (length sza) (length (wvl_arr self)))
     = replicate (length sza) (replicate (length (wvl_arr self)) 1)
   \<and> (target_gas self \<notin> set (''ALL'' # gases) \<longrightarrow>
        optical_depth self pp0 sza = Inr (zeros (length sza) (length (wvl_arr self))))"
proof (intro conjI impI)
  show "optical_depth (self\<lparr>target_gas := ''NH3'', with_trace_gases := False\<rparr>) pp0 sza
          = Inr (zeros (length sza) (length (wvl_arr self)))"
    using optical_depth_no_branch [of "self\<lparr>target_gas := ''NH3'', with_trace_gases := False\<rparr>" pp0 sza]
    by simp
next
  show "beer_lambert (zeros (length sza) (length (wvl_arr self)))
          = replicate (length sza) (replicate (length (wvl_arr self)) 1)"
    by (rule beer_lambert_zeros)
next
  assume "target_gas self \<notin> set (''ALL'' # gases)"
  then show "optical_depth self pp0 sza = Inr (zeros (length sza) (length (wvl_arr self)))"
    by (intro optical_depth_no_branch) (auto simp: gases_def)
qed

theorem silent_zero_for_excluded_selection_witness:
  "optical_depth (demo\<lparr>target_gas := ''NH3'', with_trace_gases := False\<rparr>) 1 [30]
     = Inr [[0]]
   \<and> beer_lambert [[0]] = [[1]]
   \<and> ''H2O'' \<notin> set (''ALL'' # gases)
   \<and> optical_depth (demo\<lparr>target_gas := ''H2O''\<rparr>) 1 [30] = Inr [[0]]"
  using silent_zero_for_excluded_selection [of demo 1 "[30]"]
    silent_zero_for_excluded_selection [of "demo\<lparr>target_gas := ''H2O''\<rparr>" 1 "[30]"]
  by (simp add: demo_def gases_def zeros_def)

text \<open>
  C3, as the code has it. A \<^verbatim>\<open>target_gas\<close> outside \<^verbatim>\<open>'ALL'\<close> and the eight species
  names raises no error, whatever the tables of the object are: no block of the method
  runs, and the zero optical depth comes back as an ordinary result.
\<close>

theorem unknown_species_not_rejected:
  assumes "target_gas self \<notin> set (''ALL'' # gases)"
  shows "(\<forall>e. optical_depth self pp0 sza \<noteq> Inl e)
         \<and> optical_depth self pp0 sza = Inr (zeros (length sza) (length (wvl_arr self)))"
proof -
  have "optical_depth self pp0 sza = Inr (zeros (length sza) (length (wvl_arr self)))"
    using assms by (intro optical_depth_no_branch) (auto simp: gases_def)
  then show ?thesis by simp
qed

theorem unknown_species_not_rejected_witness:
  "''XYZ'' \<notin> set (''ALL'' # gases)
   \<and> (\<forall>e. optical_depth (demo\<lparr>target_gas := ''XYZ'', attrs := Map.empty\<rparr>) 1 [30] \<noteq> Inl e)
   \<and> optical_depth (demo\<lparr>target_gas := ''XYZ'', attrs := Map.empty\<rparr>) 1 [30] = Inr [[0]]"
  using unknown_species_not_rejected [of "demo\<lparr>target_gas := ''XYZ'', attrs := Map.empty\<rparr>" 1 "[30]"]
  by (simp add: demo_def gases_def zeros_def)

text \<open>
  C3, as the claim states it, fails: the selection \<^verbatim>\<open>'XYZ'\<close> is outside the enumerated
  set, and the method returns a spectrum instead of raising.
\<close>

theorem unknown_species_counterexample:
  "''XYZ'' \<notin> set (''ALL'' # gases)
   \<and> optical_depth (demo\<lparr>target_gas := ''XYZ''\<rparr>) 1 [30] = Inr [[0]]"
  by (simp add: optical_depth_no_branch demo_def gases_def zeros_def)

section \<open>One species at a time\<close>

text \<open>
  C4. For a positive pressure ratio, with the trace gases enabled and well-formed
  tables, the optical depth of each single species of O2, CH4, CO, N2O, CO2, N2, O4 and
  NH3 is its table times its airmass times the column abundance that the specification
  writes for it (\<open>spec_abundance\<close>, with the constants as given there and the Loschmidt
  number 2.6868e19).
\<close>

theorem abundance_formulas:
  assumes "0 < pp0" and "tables_ok self" and "with_trace_gases self" and "g \<in> set gases"
  shows "optical_depth (self\<lparr>target_gas := g\<rparr>) pp0 sza
           = Inr (outer (table self (own_constituent g))
                    (spec_abundance g pp0 (tair self) (co2_ppm self))
                    (getam self sza (airmass_constituent g)))"
  using assms(2-4) by (rule single_species_depth)

theorem abundance_formulas_witness:
  "(0::real) < 1 \<and> tables_ok demo \<and> with_trace_gases demo \<and> ''O4'' \<in> set gases
   \<and> optical_depth (demo\<lparr>target_gas := ''O4''\<rparr>) 1 [30]
       = Inr (outer (table demo (own_constituent ''O4''))
                (spec_abundance ''O4'' 1 (tair demo) (co2_ppm demo))
                (getam demo [30] (airmass_constituent ''O4'')))"
proof -
  have h: "tables_ok demo" "with_trace_gases demo" "''O4'' \<in> set gases"
    by (simp_all add: demo_def demo_attrs_def tables_ok_def table_ok_def gases_def)
  show ?thesis
    using h abundance_formulas [of 1 demo "''O4''" "[30]"] by simp
qed

text \<open>
  C2, as the code has it. The row of a zenith angle in the optical depth of a single
  species is the table of the species times its abundance times the airmass of that
  angle for \<open>airmass_constituent\<close>: the species' own constituent for O2, CH4, CO, N2O,
  CO2, N2 and NH3, and the constituent \<^verbatim>\<open>'o2'\<close> for O4. No other airmass enters: any
  airmass function that agrees on this constituent at the given angles gives the same
  result.
\<close>

theorem airmass_dispatch:
  assumes "0 < pp0" and "tables_ok self" and "with_trace_gases self" and "g \<in> set gases"
  shows "\<exists>tau. optical_depth (self\<lparr>target_gas := g\<rparr>) pp0 sza = Inr tau
           \<and> length tau = length sza
           \<and> (\<forall>i<length sza. tau ! i =
                 map (\<lambda>x. x * spec_abundance g pp0 (tair self) (co2_ppm self)
                             * Airmass_from_SMARTS self (sza ! i) (airmass_constituent g))
                   (table self (own_constituent g)))
           \<and> (\<forall>am. (\<forall>z\<in>set sza. am z (airmass_constituent g)
                                    = Airmass_from_SMARTS self z (airmass_constituent g)) \<longrightarrow>
                 optical_depth (self\<lparr>Airmass_from_SMARTS := am, target_gas := g\<rparr>) pp0 sza = Inr tau)"
proof -
  let ?tau = "outer (table self (own_constituent g))
                (spec_abundance g pp0 (tair self) (co2_ppm self))
                (getam self sza (airmass_constituent g))"
  have 1: "optical_depth (self\<lparr>target_gas := g\<rparr>) pp0 sza = Inr ?tau"
    using assms(2-4) by (rule single_species_depth)
  have 2: "length ?tau = length sza"
    by (simp add: outer_def)
  have 3: "\<forall>i<length sza. ?tau ! i =
                 map (\<lambda>x. x * spec_abundance g pp0 (tair self) (co2_ppm self)
                             * Airmass_from_SMARTS self (sza ! i) (airmass_constituent g))
                   (table self (own_constituent g))"
    by (simp add: outer_def getam_def)
  have 4: "optical_depth (self\<lparr>Airmass_from_SMARTS := am, target_gas := g\<rparr>) pp0 sza = Inr ?tau"
    if "\<forall>z\<in>set sza. am z (airmass_constituent g)
                                    = Airmass_from_SMARTS self z (airmass_constituent g)" for am
  proof -
    have "optical_depth (self\<lparr>Airmass_from_SMARTS := am, target_gas := g\<rparr>) pp0 sza
      = Inr (outer (table self (own_constituent g))
                (spec_abundance g pp0 (tair self) (co2_ppm self))
                (map (\<lambda>z. am z (airmass_constituent g)) sza))"
      using single_species_depth [of "self\<lparr>Airmass_from_SMARTS := am\<rparr>" g pp0 sza] assms(2-4)
      by simp
    moreover have "map (\<lambda>z. am z (airmass_constituent g)) sza = getam self sza (airmass_constituent g)"
      using that by (simp add: getam_def)
    ultimately show ?thesis by simp
  qed
  from 1 2 3 4 show ?thesis by blast
qed

theorem airmass_dispatch_witness:
  "(0::real) < 1 \<and> tables_ok demo \<and> with_trace_gases demo \<and> ''O4'' \<in> set gases
   \<and> (\<exists>tau. optical_depth (demo\<lparr>target_gas := ''O4''\<rparr>) 1 [30] = Inr tau
           \<and> length tau = length [30::real]
           \<and> (\<forall>i<length [30::real]. tau ! i =
                 map (\<lambda>x. x * spec_abundance ''O4'' 1 (tair demo) (co2_ppm demo)
                             * Airmass_from_SMARTS demo ([30] ! i) (airmass_constituent ''O4''))
                   (table demo (own_constituent ''O4'')))
           \<and> (\<forall>am. (\<forall>z\<in>set [30]. am z (airmass_constituent ''O4'')
                                    = Airmass_from_SMARTS demo z (airmass_constituent ''O4'')) \<longrightarrow>
                 optical_depth (demo\<lparr>Airmass_from_SMARTS := am, target_gas := ''O4''\<rparr>) 1 [30] = Inr tau))"
proof -
  have h: "tables_ok demo" "with_trace_gases demo" "''O4'' \<in> set gases"
    by (simp_all add: demo_def demo_attrs_def tables_ok_def table_ok_def gases_def)
  have z: "(0::real) < 1" by simp
  show ?thesis
    using h z airmass_dispatch [OF z h, of "[30]"] by blast
qed

text \<open>
  C2, as the claim states it, fails for O4: where the airmasses of \<^verbatim>\<open>'o2'\<close> and
  \<^verbatim>\<open>'o4'\<close> differ, the O4 optical depth is the one computed with the airmass of
  \<^verbatim>\<open>'o2'\<close> and differs from the one computed with the airmass of \<^verbatim>\<open>'o4'\<close>.
\<close>

theorem airmass_dispatch_counterexample:
  "tables_ok demo \<and> with_trace_gases demo \<and> ''O4'' \<in> set gases
   \<and> optical_depth (demo\<lparr>target_gas := ''O4''\<rparr>) 1 [30]
       = Inr (outer (table demo ''o4'') (spec_abundance ''O4'' 1 (tair demo) (co2_ppm demo))
                (getam demo [30] ''o2''))
   \<and> optical_depth (demo\<lparr>target_gas := ''O4''\<rparr>) 1 [30]
       \<noteq> Inr (outer (table demo ''o4'') (spec_abundance ''O4'' 1 (tair demo) (co2_ppm demo))
                (getam demo [30] (own_constituent ''O4'')))"
proof -
  have h: "tables_ok demo" "with_trace_gases demo" "''O4'' \<in> set gases"
    by (simp_all add: demo_def demo_attrs_def tables_ok_def table_ok_def gases_def)
  have e: "optical_depth (demo\<lparr>target_gas := ''O4''\<rparr>) 1 [30]
       = Inr (outer (table demo ''o4'') (spec_abundance ''O4'' 1 (tair demo) (co2_ppm demo))
                (getam demo [30] ''o2''))"
    using single_species_depth [OF h, of 1 "[30]"]
    by (simp add: own_constituent_def airmass_constituent_def)
  have n: "outer (table demo ''o4'') (spec_abundance ''O4'' 1 (tair demo) (co2_ppm demo))
                (getam demo [30] ''o2'')
       \<noteq> outer (table demo ''o4'') (spec_abundance ''O4'' 1 (tair demo) (co2_ppm demo))
                (getam demo [30] (own_constituent ''O4''))"
    by (simp add: outer_def getam_def table_def demo_def demo_attrs_def own_constituent_def
        spec_abundance_def)
  from h e n show ?thesis by simp
qed

section \<open>All species together\<close>

lemma shaped_zeros: "shaped m n (zeros m n)"
  by (simp add: shaped_def zeros_def list_all_iff)

lemma shaped_outer: "length a = n \<Longrightarrow> length am = m \<Longrightarrow> shaped m n (outer a ab am)"
  by (simp add: shaped_def outer_def list_all_iff)

lemma shaped_madd: "shaped m n A \<Longrightarrow> shaped m n B \<Longrightarrow> shaped m n (madd A B)"
  by (simp add: shaped_def madd_def list_all_length)

lemma madd_nth:
  "shaped m n A \<Longrightarrow> shaped m n B \<Longrightarrow> i < m \<Longrightarrow> j < n
     \<Longrightarrow> madd A B ! i ! j = A ! i ! j + B ! i ! j"
  by (simp add: shaped_def madd_def list_all_length)

lemma zeros_nth: "i < m \<Longrightarrow> j < n \<Longrightarrow> zeros m n ! i ! j = 0"
  by (simp add: zeros_def)

lemma foldl_madd_nth:
  "shaped m n A \<Longrightarrow> list_all (shaped m n) ts \<Longrightarrow> i < m \<Longrightarrow> j < n
     \<Longrightarrow> foldl madd A ts ! i ! j = A ! i ! j + (\<Sum>t\<leftarrow>ts. t ! i ! j)"
proof (induction ts arbitrary: A)
  case Nil
  then show ?case by simp
next
  case (Cons t ts)
  then have "foldl madd (madd A t) ts ! i ! j = madd A t ! i ! j + (\<Sum>t\<leftarrow>ts. t ! i ! j)"
    by (intro Cons.IH) (simp_all add: shaped_madd)
  then show ?case using Cons.prems by (simp add: madd_nth)
qed


text \<open>
  C1. For a positive pressure ratio, with the trace gases enabled and well-formed tables,
  each of the eight single-species calls returns a spectrum, and the call with
  \<^verbatim>\<open>target_gas = 'ALL'\<close> returns their elementwise sum: the accumulation of the
  eight spectra onto the zero array, whose entry at each zenith angle and wavelength is
  the sum of the eight entries there. Over the reals the equality is exact.
\<close>

theorem additive_decomposability:
  assumes "0 < pp0" and "tables_ok self" and "with_trace_gases self"
  shows "\<exists>taus tau_all.
           map (\<lambda>g. optical_depth (self\<lparr>target_gas := g\<rparr>) pp0 sza) gases = map Inr taus
           \<and> optical_depth (self\<lparr>target_gas := ''ALL''\<rparr>) pp0 sza = Inr tau_all
           \<and> tau_all = foldl madd (zeros (length sza) (length (wvl_arr self))) taus
           \<and> (\<forall>i<length sza. \<forall>j<length (wvl_arr self).
                 tau_all ! i ! j = (\<Sum>tau\<leftarrow>taus. tau ! i ! j))"
proof -
  let ?contrib = "\<lambda>g. outer (table self (own_constituent g))
                (spec_abundance g pp0 (tair self) (co2_ppm self))
                (getam self sza (airmass_constituent g))"
  let ?m = "length sza" and ?n = "length (wvl_arr self)"
  let ?all = "foldl madd (zeros ?m ?n) (map ?contrib gases)"
  have singles: "map (\<lambda>g. optical_depth (self\<lparr>target_gas := g\<rparr>) pp0 sza) gases
                   = map Inr (map ?contrib gases)"
    using assms(2,3) by (simp add: single_species_depth)
  have all: "optical_depth (self\<lparr>target_gas := ''ALL''\<rparr>) pp0 sza = Inr ?all"
    using assms(2,3) by (rule all_species_depth)
  have "shaped ?m ?n (?contrib g)" if "g \<in> set gases" for g
  proof -
    have "table_ok self (own_constituent g)"
      using that tables_okD [OF assms(2)] by (auto simp: gases_def own_constituent_def)
    then show ?thesis by (intro shaped_outer) (simp_all add: table_ok_length)
  qed
  then have "list_all (shaped ?m ?n) (map ?contrib gases)"
    by (simp add: list_all_iff)
  then have "?all ! i ! j = (\<Sum>tau\<leftarrow>map ?contrib gases. tau ! i ! j)" if "i < ?m" "j < ?n" for i j
    using foldl_madd_nth [OF shaped_zeros _ that, of "map ?contrib gases"] that
    by (simp add: zeros_nth)
  with singles all show ?thesis by blast
qed

theorem additive_decomposability_witness:
  "(0::real) < 1 \<and> tables_ok demo \<and> with_trace_gases demo
   \<and> (\<exists>taus tau_all.
           map (\<lambda>g. optical_depth (demo\<lparr>target_gas := g\<rparr>) 1 [30]) gases = map Inr taus
           \<and> optical_depth (demo\<lparr>target_gas := ''ALL''\<rparr>) 1 [30] = Inr tau_all
           \<and> tau_all = foldl madd (zeros (length [30::real]) (length (wvl_arr demo))) taus
           \<and> (\<forall>i<length [30::real]. \<forall>j<length (wvl_arr demo).
                 tau_all ! i ! j = (\<Sum>tau\<leftarrow>taus. tau ! i ! j)))"
proof -
  have h: "tables_ok demo" "with_trace_gases demo"
    by (simp_all add: demo_def demo_attrs_def tables_ok_def table_ok_def)
  have z: "(0::real) < 1" by simp
  show ?thesis
    using h z additive_decomposability [OF z h, of "[30]"] by blast
qed

section \<open>The temperature\<close>

text \<open>
  C9. Two calls that differ only in the temperature \<^verbatim>\<open>tair\<close> return the same result
  whenever the selection is neither \<^verbatim>\<open>'O4'\<close> nor \<^verbatim>\<open>'ALL'\<close>: the temperature enters
  the O4 block only, so the contribution of every other species is independent of it.
\<close>

theorem temperature_only_in_O4:
  assumes "target_gas self \<noteq> ''O4''" and "target_gas self \<noteq> ''ALL''"
  shows "optical_depth (self\<lparr>tair := t1\<rparr>) pp0 sza = optical_depth (self\<lparr>tair := t2\<rparr>) pp0 sza"
  using assms by (simp add: optical_depth_def Let_def branch_False)

theorem temperature_only_in_O4_witness:
  "target_gas (demo\<lparr>target_gas := ''CO2''\<rparr>) \<noteq> ''O4''
   \<and> target_gas (demo\<lparr>target_gas := ''CO2''\<rparr>) \<noteq> ''ALL''
   \<and> optical_depth (demo\<lparr>target_gas := ''CO2'', tair := 15\<rparr>) 1 [30]
       = optical_depth (demo\<lparr>target_gas := ''CO2'', tair := - 40\<rparr>) 1 [30]"
  using temperature_only_in_O4 [of "demo\<lparr>target_gas := ''CO2''\<rparr>" 15 1 "[30]" "- 40"]
  by simp

section \<open>The trace-gas flag\<close>

lemma add_term_other_table:
  "c @ ''abs'' \<noteq> k \<Longrightarrow>
   add_term (self\<lparr>attrs := (attrs self)(k := a)\<rparr>) sza c = add_term self sza c"
  by (intro ext) (simp add: add_term_def getabs_def getam_def split: option.splits)

lemma nh3_table_unread:
  assumes "\<not> (with_trace_gases self \<and> (target_gas self = ''NH3'' \<or> target_gas self = ''ALL''))"
  shows "optical_depth (self\<lparr>attrs := (attrs self)(''nh3abs'' := a)\<rparr>) pp0 sza
           = optical_depth self pp0 sza"
  using assms by (simp add: optical_depth_def Let_def branch_False add_term_other_table)

lemma add_term_flag [simp]: "add_term (self\<lparr>with_trace_gases := b\<rparr>) = add_term self"
  by (rule add_term_cong) simp_all

lemma nh3_block_last:
  "optical_depth self pp0 sza
     = branch (with_trace_gases self \<and> (target_gas self = ''NH3'' \<or> target_gas self = ''ALL''))
         (add_term self sza ''nh3''
            (spec_abundance ''NH3'' pp0 (tair self) (co2_ppm self)) ''nh3'')
         (optical_depth (self\<lparr>with_trace_gases := False\<rparr>) pp0 sza)"
  by (simp add: optical_depth_def Let_def branch_False spec_abundance_def)

lemma returns_shaped_zeros: "returns_shaped m n (Inr (zeros m n))"
  by (simp add: returns_shaped_def shaped_zeros)

lemma returns_shaped_branch:
  assumes "returns_shaped (length sza) (length (wvl_arr self)) r" and "table_ok self c"
  shows "returns_shaped (length sza) (length (wvl_arr self))
           (branch cond (add_term self sza c ab c') r)"
  using assms
  by (auto simp: returns_shaped_def branch_def add_term_ok shaped_madd shaped_outer
      table_ok_length split: sum.splits)

lemma without_nh3_shaped:
  assumes "tables_ok self"
  shows "returns_shaped (length sza) (length (wvl_arr self))
           (optical_depth (self\<lparr>with_trace_gases := False\<rparr>) pp0 sza)"
  using tables_okD [OF assms]
  by (simp add: optical_depth_def Let_def branch_False returns_shaped_branch returns_shaped_zeros)

lemma spec_abundance_NH3_pos: "0 < spec_abundance ''NH3'' pp0 t c"
  by (simp add: spec_abundance_def Let_def)

lemma nh3_added:
  assumes "tables_ok self" and "with_trace_gases self"
    and "target_gas self = ''NH3'' \<or> target_gas self = ''ALL''"
  shows "\<exists>base. optical_depth (self\<lparr>with_trace_gases := False\<rparr>) pp0 sza = Inr base
           \<and> shaped (length sza) (length (wvl_arr self)) base
           \<and> optical_depth self pp0 sza
               = Inr (madd base (outer (table self ''nh3'')
                        (spec_abundance ''NH3'' pp0 (tair self) (co2_ppm self))
                        (getam self sza ''nh3'')))"
proof -
  obtain base where base: "optical_depth (self\<lparr>with_trace_gases := False\<rparr>) pp0 sza = Inr base"
    and sh: "shaped (length sza) (length (wvl_arr self)) base"
    using without_nh3_shaped [OF assms(1), of sza pp0]
    by (auto simp: returns_shaped_def split: sum.splits)
  have "table_ok self ''nh3''" using tables_okD [OF assms(1)] by simp
  then have "optical_depth self pp0 sza
               = Inr (madd base (outer (table self ''nh3'')
                        (spec_abundance ''NH3'' pp0 (tair self) (co2_ppm self))
                        (getam self sza ''nh3'')))"
    using assms(2,3) base by (subst nh3_block_last) (simp add: branch_def add_term_ok)
  with base sh show ?thesis by blast
qed

lemma outer_nth:
  "i < length am \<Longrightarrow> j < length a \<Longrightarrow> outer a ab am ! i ! j = a ! j * ab * am ! i"
  by (simp add: outer_def)

lemma table_ok_other_table:
  "c @ ''abs'' \<noteq> k \<Longrightarrow>
   table_ok (self\<lparr>attrs := (attrs self)(k := a)\<rparr>) c = table_ok self c"
  by (simp add: table_ok_def split: option.splits)

lemma tables_ok_new_nh3:
  assumes "tables_ok self" and "length a = length (wvl_arr self)"
  shows "tables_ok (self\<lparr>attrs := (attrs self)(''nh3abs'' \<mapsto> a)\<rparr>)"
proof -
  have "table_ok (self\<lparr>attrs := (attrs self)(''nh3abs'' \<mapsto> a)\<rparr>) ''nh3''"
    using assms(2) by (simp add: table_ok_def)
  then show ?thesis
    using tables_okD [OF assms(1)] by (simp add: tables_ok_def table_ok_other_table)
qed

lemma nh3_changes_spectrum:
  assumes ok: "tables_ok self" and flag: "with_trace_gases self"
    and sel: "target_gas self = ''NH3'' \<or> target_gas self = ''ALL''"
    and grid: "wvl_arr self \<noteq> []"
    and z: "z \<in> set sza" and am: "Airmass_from_SMARTS self z ''nh3'' \<noteq> 0"
  shows "nh3_contributes self pp0 sza"
proof -
  let ?m = "length sza" and ?n = "length (wvl_arr self)"
  let ?ab = "spec_abundance ''NH3'' pp0 (tair self) (co2_ppm self)"
  let ?a = "map (\<lambda>x. x + 1) (table self ''nh3'')"
  let ?self' = "self\<lparr>attrs := (attrs self)(''nh3abs'' \<mapsto> ?a)\<rparr>"
  have tl: "length (table self ''nh3'') = ?n"
    using tables_okD [OF ok] by (simp add: table_ok_length)
  have ok': "tables_ok ?self'"
    using ok tl by (intro tables_ok_new_nh3) simp_all
  obtain base where base: "optical_depth (self\<lparr>with_trace_gases := False\<rparr>) pp0 sza = Inr base"
    and sh: "shaped ?m ?n base"
    and tau: "optical_depth self pp0 sza
                = Inr (madd base (outer (table self ''nh3'') ?ab (getam self sza ''nh3'')))"
    using nh3_added [OF ok flag sel, of pp0 sza] by blast
  have swap: "?self'\<lparr>with_trace_gases := False\<rparr>
                = self\<lparr>with_trace_gases := False, attrs := (attrs self)(''nh3abs'' \<mapsto> ?a)\<rparr>"
    by (cases self) simp
  have same: "optical_depth (?self'\<lparr>with_trace_gases := False\<rparr>) pp0 sza = Inr base"
    using nh3_table_unread [of "self\<lparr>with_trace_gases := False\<rparr>" "Some ?a" pp0 sza] base
    unfolding swap by simp
  have tau': "optical_depth ?self' pp0 sza
                = Inr (madd base (outer ?a ?ab (getam self sza ''nh3'')))"
    using nh3_added [OF ok', of pp0 sza] flag sel same
    by (simp add: table_def getam_def)
  obtain i where i: "i < ?m" "sza ! i = z"
    using z by (auto simp: in_set_conv_nth)
  have j: "0 < ?n" using grid by simp
  have e: "madd base (outer (table self ''nh3'') ?ab (getam self sza ''nh3'')) ! i ! 0
             = base ! i ! 0 + table self ''nh3'' ! 0 * ?ab * Airmass_from_SMARTS self z ''nh3''"
    using sh i j tl by (simp add: madd_nth [of ?m ?n] shaped_outer outer_nth getam_def)
  have e': "madd base (outer ?a ?ab (getam self sza ''nh3'')) ! i ! 0
             = base ! i ! 0 + (table self ''nh3'' ! 0 + 1) * ?ab * Airmass_from_SMARTS self z ''nh3''"
    using sh i j tl by (simp add: madd_nth [of ?m ?n] shaped_outer outer_nth getam_def)
  have "?ab * Airmass_from_SMARTS self z ''nh3'' \<noteq> 0"
    using am spec_abundance_NH3_pos [of pp0 "tair self" "co2_ppm self"] by simp
  then have "madd base (outer ?a ?ab (getam self sza ''nh3'')) ! i ! 0
           \<noteq> madd base (outer (table self ''nh3'') ?ab (getam self sza ''nh3'')) ! i ! 0"
    unfolding e e' by (simp add: algebra_simps)
  then have "madd base (outer ?a ?ab (getam self sza ''nh3''))
           \<noteq> madd base (outer (table self ''nh3'') ?ab (getam self sza ''nh3''))"
    by auto
  with tau tau' tl show ?thesis
    unfolding nh3_contributes_def by (intro exI [of _ ?a]) auto
qed

lemma nh3_contributes_only_if:
  assumes "nh3_contributes self pp0 sza"
  shows "with_trace_gases self \<and> (target_gas self = ''NH3'' \<or> target_gas self = ''ALL'')"
proof (rule ccontr)
  assume "\<not> ?thesis"
  then have "optical_depth (self\<lparr>attrs := (attrs self)(''nh3abs'' := a)\<rparr>) pp0 sza
               = optical_depth self pp0 sza" for a
    by (rule nh3_table_unread)
  then show False using assms unfolding nh3_contributes_def by auto
qed

text \<open>
  C6, as the code has it. With well-formed tables, the NH3 term enters the spectrum
  exactly when \<^verbatim>\<open>with_trace_gases\<close> is set and \<^verbatim>\<open>target_gas\<close> is \<^verbatim>\<open>'NH3'\<close> or
  \<^verbatim>\<open>'ALL'\<close>. In that case the spectrum is the spectrum of the same call without trace
  gases plus, at each zenith angle and wavelength, the NH3 coefficient times the NH3
  abundance times the NH3 airmass; and, on a nonempty grid with a nonzero NH3 airmass at
  some zenith angle, another NH3 table gives another spectrum. In every other case the
  result is that of the call without trace gases. When the flag is unset, the result is
  the one without NH3: it is the same whatever the NH3 table holds, and the same when
  the object has no NH3 table.
\<close>

theorem trace_gas_gating:
  assumes "tables_ok self"
  shows "(nh3_contributes self pp0 sza \<longrightarrow>
            with_trace_gases self \<and> (target_gas self = ''NH3'' \<or> target_gas self = ''ALL''))
       \<and> (with_trace_gases self \<and> (target_gas self = ''NH3'' \<or> target_gas self = ''ALL'')
            \<and> wvl_arr self \<noteq> [] \<and> (\<exists>z\<in>set sza. Airmass_from_SMARTS self z ''nh3'' \<noteq> 0) \<longrightarrow>
            nh3_contributes self pp0 sza)
       \<and> (with_trace_gases self \<and> (target_gas self = ''NH3'' \<or> target_gas self = ''ALL'') \<longrightarrow>
            (\<exists>base tau.
               optical_depth (self\<lparr>with_trace_gases := False\<rparr>) pp0 sza = Inr base
               \<and> optical_depth self pp0 sza = Inr tau
               \<and> tau = madd base (outer (table self ''nh3'')
                          (spec_abundance ''NH3'' pp0 (tair self) (co2_ppm self))
                          (getam self sza ''nh3''))
               \<and> (\<forall>i<length sza. \<forall>j<length (wvl_arr self).
                     tau ! i ! j = base ! i ! j
                       + table self ''nh3'' ! j
                         * spec_abundance ''NH3'' pp0 (tair self) (co2_ppm self)
                         * Airmass_from_SMARTS self (sza ! i) ''nh3'')))
       \<and> (\<not> (with_trace_gases self \<and> (target_gas self = ''NH3'' \<or> target_gas self = ''ALL'')) \<longrightarrow>
            optical_depth self pp0 sza
              = optical_depth (self\<lparr>with_trace_gases := False\<rparr>) pp0 sza)
       \<and> (\<not> with_trace_gases self \<longrightarrow>
            (\<forall>a. optical_depth (self\<lparr>attrs := (attrs self)(''nh3abs'' := a)\<rparr>) pp0 sza
                   = optical_depth self pp0 sza))"
proof -
  let ?run = "with_trace_gases self \<and> (target_gas self = ''NH3'' \<or> target_gas self = ''ALL'')"
  let ?m = "length sza" and ?n = "length (wvl_arr self)"
  let ?ab = "spec_abundance ''NH3'' pp0 (tair self) (co2_ppm self)"
  have only_if: "?run" if "nh3_contributes self pp0 sza"
    using that by (rule nh3_contributes_only_if)
  have changes: "nh3_contributes self pp0 sza"
    if "?run" "wvl_arr self \<noteq> []" "\<exists>z\<in>set sza. Airmass_from_SMARTS self z ''nh3'' \<noteq> 0"
    using that nh3_changes_spectrum [OF assms, of _ sza pp0] by blast
  have added: "\<exists>base tau.
               optical_depth (self\<lparr>with_trace_gases := False\<rparr>) pp0 sza = Inr base
               \<and> optical_depth self pp0 sza = Inr tau
               \<and> tau = madd base (outer (table self ''nh3'') ?ab (getam self sza ''nh3''))
               \<and> (\<forall>i<?m. \<forall>j<?n.
                     tau ! i ! j = base ! i ! j
                       + table self ''nh3'' ! j * ?ab * Airmass_from_SMARTS self (sza ! i) ''nh3'')"
    if run: "?run"
  proof -
    obtain base where base: "optical_depth (self\<lparr>with_trace_gases := False\<rparr>) pp0 sza = Inr base"
      and sh: "shaped ?m ?n base"
      and tau: "optical_depth self pp0 sza
                  = Inr (madd base (outer (table self ''nh3'') ?ab (getam self sza ''nh3'')))"
      using nh3_added [OF assms, of pp0 sza] run by blast
    have tl: "length (table self ''nh3'') = ?n"
      using tables_okD [OF assms] by (simp add: table_ok_length)
    have "madd base (outer (table self ''nh3'') ?ab (getam self sza ''nh3'')) ! i ! j
            = base ! i ! j + table self ''nh3'' ! j * ?ab * Airmass_from_SMARTS self (sza ! i) ''nh3''"
      if "i < ?m" "j < ?n" for i j
      using sh that tl by (simp add: madd_nth [of ?m ?n] shaped_outer outer_nth getam_def)
    with base tau show ?thesis by blast
  qed
  have skipped: "optical_depth self pp0 sza
              = optical_depth (self\<lparr>with_trace_gases := False\<rparr>) pp0 sza" if "\<not> ?run"
    using that by (subst nh3_block_last) (simp add: branch_False)
  have unset: "optical_depth (self\<lparr>attrs := (attrs self)(''nh3abs'' := a)\<rparr>) pp0 sza
                   = optical_depth self pp0 sza" if "\<not> with_trace_gases self" for a
    using that by (intro nh3_table_unread) simp
  from only_if changes added skipped unset show ?thesis by blast
qed

theorem trace_gas_gating_witness:
  "tables_ok demo
   \<and> with_trace_gases demo \<and> target_gas demo = ''ALL'' \<and> wvl_arr demo \<noteq> []
   \<and> Airmass_from_SMARTS demo 30 ''nh3'' \<noteq> 0
   \<and> nh3_contributes demo 1 [30]
   \<and> (\<exists>base tau.
         optical_depth (demo\<lparr>with_trace_gases := False\<rparr>) 1 [30] = Inr base
         \<and> optical_depth demo 1 [30] = Inr tau
         \<and> tau ! 0 ! 0 = base ! 0 ! 0
             + table demo ''nh3'' ! 0 * spec_abundance ''NH3'' 1 (tair demo) (co2_ppm demo)
               * Airmass_from_SMARTS demo 30 ''nh3'')
   \<and> tables_ok (demo\<lparr>with_trace_gases := False\<rparr>)
   \<and> \<not> with_trace_gases (demo\<lparr>with_trace_gases := False\<rparr>)
   \<and> \<not> nh3_contributes (demo\<lparr>with_trace_gases := False\<rparr>) 1 [30]
   \<and> (\<forall>a. optical_depth (demo\<lparr>with_trace_gases := False,
                               attrs := (attrs demo)(''nh3abs'' := a)\<rparr>) 1 [30]
            = optical_depth (demo\<lparr>with_trace_gases := False\<rparr>) 1 [30])"
proof -
  have h: "tables_ok demo" "tables_ok (demo\<lparr>with_trace_gases := False\<rparr>)"
    by (simp_all add: demo_def demo_attrs_def tables_ok_def table_ok_def)
  have f: "with_trace_gases demo" "target_gas demo = ''ALL''" "wvl_arr demo \<noteq> []"
    "Airmass_from_SMARTS demo 30 ''nh3'' \<noteq> 0"
    "\<not> with_trace_gases (demo\<lparr>with_trace_gases := False\<rparr>)"
    by (simp_all add: demo_def)
  note on = trace_gas_gating [OF h(1), of 1 "[30]"]
  note off = trace_gas_gating [OF h(2), of 1 "[30]"]
  have 1: "nh3_contributes demo 1 [30]"
    using on f by simp
  have 2: "\<exists>base tau.
         optical_depth (demo\<lparr>with_trace_gases := False\<rparr>) 1 [30] = Inr base
         \<and> optical_depth demo 1 [30] = Inr tau
         \<and> tau ! 0 ! 0 = base ! 0 ! 0
             + table demo ''nh3'' ! 0 * spec_abundance ''NH3'' 1 (tair demo) (co2_ppm demo)
               * Airmass_from_SMARTS demo 30 ''nh3''"
  proof -
    obtain base tau where
      "optical_depth (demo\<lparr>with_trace_gases := False\<rparr>) 1 [30] = Inr base"
      "optical_depth demo 1 [30] = Inr tau"
      "\<forall>i<length [30::real]. \<forall>j<length (wvl_arr demo).
         tau ! i ! j = base ! i ! j
           + table demo ''nh3'' ! j * spec_abundance ''NH3'' 1 (tair demo) (co2_ppm demo)
             * Airmass_from_SMARTS demo ([30] ! i) ''nh3''"
      using on f(1,2) by blast
    moreover have "0 < length (wvl_arr demo)" using f(3) by simp
    ultimately show ?thesis by fastforce
  qed
  have 3: "\<not> nh3_contributes (demo\<lparr>with_trace_gases := False\<rparr>) 1 [30]"
    using off by simp
  have 4: "optical_depth (demo\<lparr>with_trace_gases := False,
                               attrs := (attrs demo)(''nh3abs'' := a)\<rparr>) 1 [30]
            = optical_depth (demo\<lparr>with_trace_gases := False\<rparr>) 1 [30]" for a
    using off by simp
  from h f 1 2 3 4 show ?thesis by blast
qed

text \<open>
  C6, as the claim states it, fails: with the flag set and \<^verbatim>\<open>target_gas = 'O2'\<close>, on a
  grid of one wavelength and with a nonzero NH3 airmass, the NH3 term does not
  contribute.
\<close>

theorem trace_gas_gating_counterexample:
  "tables_ok (demo\<lparr>target_gas := ''O2''\<rparr>) \<and> with_trace_gases (demo\<lparr>target_gas := ''O2''\<rparr>)
   \<and> wvl_arr (demo\<lparr>target_gas := ''O2''\<rparr>) \<noteq> []
   \<and> Airmass_from_SMARTS (demo\<lparr>target_gas := ''O2''\<rparr>) 30 ''nh3'' \<noteq> 0
   \<and> \<not> nh3_contributes (demo\<lparr>target_gas := ''O2''\<rparr>) 1 [30]"
proof -
  have "\<not> nh3_contributes (demo\<lparr>target_gas := ''O2''\<rparr>) 1 [30]"
    using nh3_contributes_only_if [of "demo\<lparr>target_gas := ''O2''\<rparr>" 1 "[30]"] by auto
  then show ?thesis
    by (simp add: demo_def demo_attrs_def tables_ok_def table_ok_def)
qed

section \<open>The NO2 and SO2 abundances\<close>

lemma no2_abundance_nonneg: "0 < pp0 \<Longrightarrow> 0 \<le> no2_abundance pp0"
  by (simp add: no2_abundance_def)

lemma so2_abundance_nonneg: "0 \<le> so2_abundance pp0"
  by (simp add: so2_abundance_def)

text \<open>
  C5. For a positive pressure ratio the NO2 column abundance is
  \<open>1e-4 * min (1.8599 + 0.18453 * pp0, 41.771 * pp0)\<close>, the SO2 column abundance is
  \<open>1e-4 * 0.11133 * pp0^0.812 * exp (0.81319 + 3.0557 * pp0^2 - 1.578 * pp0^3)\<close>, and
  neither is negative.
\<close>

theorem trace_gas_abundances:
  assumes "0 < pp0"
  shows "no2_abundance pp0 = 1 / 10000 * min (1.8599 + 0.18453 * pp0) (41.771 * pp0)
       \<and> so2_abundance pp0
           = 1 / 10000 * 0.11133 * pp0 powr 0.812 * exp (0.81319 + 3.0557 * pp0\<^sup>2 - 1.578 * pp0 ^ 3)
       \<and> 0 \<le> no2_abundance pp0 \<and> 0 \<le> so2_abundance pp0"
  using assms no2_abundance_nonneg [of pp0] so2_abundance_nonneg [of pp0]
  by (simp add: no2_abundance_def so2_abundance_def)

theorem trace_gas_abundances_witness:
  "(0::real) < 1
   \<and> no2_abundance 1 = 1 / 10000 * (1.8599 + 0.18453)
   \<and> so2_abundance 1 = 1 / 10000 * 0.11133 * exp (0.81319 + 3.0557 - 1.578)
   \<and> 0 \<le> no2_abundance 1 \<and> 0 \<le> so2_abundance 1"
  using trace_gas_abundances [of 1] by simp

section \<open>Interpolation and the product of the components\<close>

lemma sorted_hd_le_nth: "sorted_wrt (<) xp \<Longrightarrow> j < length xp \<Longrightarrow> hd xp \<le> (xp ! j :: real)"
  by (cases xp; cases j) (auto simp: less_imp_le)

lemma sorted_hd_le_last: "sorted_wrt (<) xp \<Longrightarrow> xp \<noteq> [] \<Longrightarrow> hd xp \<le> (last xp :: real)"
  by (cases xp) (auto simp: less_imp_le)

lemma locate_last:
  "length fp = length xp \<Longrightarrow> xp \<noteq> [] \<Longrightarrow> sorted_wrt (<) xp \<Longrightarrow> last xp \<le> v
     \<Longrightarrow> locate v xp fp = last fp"
proof (induction v xp fp rule: locate.induct)
  case (1 v x0 x1 xs f0 f1 fs)
  have "x1 \<le> last (x1 # xs)"
    using "1.prems"(3) sorted_hd_le_last [of "x1 # xs"] by simp
  then have "\<not> v < x1" using "1.prems"(4) by simp
  then show ?case using 1 by simp
qed auto

lemma locate_segment:
  "length fp = length xp \<Longrightarrow> sorted_wrt (<) xp \<Longrightarrow> Suc j < length xp
     \<Longrightarrow> xp ! j \<le> v \<Longrightarrow> v \<le> xp ! Suc j
     \<Longrightarrow> locate v xp fp
           = fp ! j + (fp ! Suc j - fp ! j) * (v - xp ! j) / (xp ! Suc j - xp ! j)"
proof (induction v xp fp arbitrary: j rule: locate.induct)
  case (1 v x0 x1 xs f0 f1 fs)
  show ?case
  proof (cases j)
    case 0
    show ?thesis
    proof (cases "v < x1")
      case True
      then show ?thesis using 0 "1.prems" by (simp add: field_simps)
    next
      case False
      then have v: "v = x1" using 0 "1.prems" by simp
      have ne: "x0 \<noteq> x1" using "1.prems"(2) by simp
      have "locate x1 (x1 # xs) (f1 # fs) = f1"
      proof (cases xs)
        case Nil then show ?thesis by simp
      next
        case (Cons x2 xs')
        then obtain f2 fs' where "fs = f2 # fs'" using "1.prems"(1) by (cases fs) auto
        then show ?thesis using Cons "1.prems"(2) by simp
      qed
      then show ?thesis using v 0 ne by (simp add: field_simps)
    qed
  next
    case (Suc k)
    have "x1 \<le> (x1 # xs) ! k"
      using "1.prems" Suc sorted_hd_le_nth [of "x1 # xs" k] by simp
    then have nv: "\<not> v < x1" using "1.prems"(4) Suc by simp
    have "locate v (x1 # xs) (f1 # fs)
           = (f1 # fs) ! k + ((f1 # fs) ! Suc k - (f1 # fs) ! k) * (v - (x1 # xs) ! k)
               / ((x1 # xs) ! Suc k - (x1 # xs) ! k)"
      using "1.prems" Suc nv by (intro "1.IH") auto
    then show ?thesis using nv Suc by simp
  qed
qed auto

lemma locate_first:
  "length fp = length xp \<Longrightarrow> xp \<noteq> [] \<Longrightarrow> sorted_wrt (<) xp \<Longrightarrow> locate (hd xp) xp fp = hd fp"
  by (induction "hd xp" xp fp rule: locate.induct) auto

lemma interp1_clamped_linear:
  assumes "component_ok c"
  shows "clamped_linear (grid c) (trans c) x (interp1 x (grid c) (trans c))"
proof -
  have len: "length (trans c) = length (grid c)" and ne: "grid c \<noteq> []"
    and st: "sorted_wrt (<) (grid c)"
    using assms by (simp_all add: component_ok_def)
  have a: "interp1 x (grid c) (trans c) = hd (trans c)" if "x \<le> hd (grid c)"
    using that locate_first [OF len ne st] by (cases "x < hd (grid c)") (auto simp: interp1_def)
  have hl: "hd (grid c) \<le> last (grid c)"
    using sorted_hd_le_last [OF st ne] .
  have b: "interp1 x (grid c) (trans c) = last (trans c)" if "last (grid c) \<le> x"
    using that hl locate_last [OF len ne st that] by (simp add: interp1_def)
  have s: "interp1 x (grid c) (trans c)
      = trans c ! j + (trans c ! Suc j - trans c ! j) * (x - grid c ! j) / (grid c ! Suc j - grid c ! j)"
    if "Suc j < length (grid c)" "grid c ! j \<le> x" "x \<le> grid c ! Suc j" for j
  proof -
    have "hd (grid c) \<le> grid c ! j" using sorted_hd_le_nth [OF st, of j] that(1) by simp
    then have "\<not> x < hd (grid c)" using that(2) by simp
    then show ?thesis using locate_segment [OF len st that] by (simp add: interp1_def)
  qed
  from a b s show ?thesis unfolding clamped_linear_def by blast
qed

lemma map2_map_map: "map2 f (map g xs) (map h xs) = map (\<lambda>x. f (g x) (h x)) xs"
  by (induction xs) auto

lemma interp_ok:
  "xp \<noteq> [] \<Longrightarrow> length fp = length xp \<Longrightarrow> interp x xp fp = Inr (map (\<lambda>v. interp1 v xp fp) x)"
  by (simp add: interp_def)

lemma trans_total_ok:
  assumes "grid ray \<noteq> [] \<and> length (trans ray) = length (grid ray)"
    and "grid oz \<noteq> [] \<and> length (trans oz) = length (grid oz)"
    and "grid water \<noteq> [] \<and> length (trans water) = length (grid water)"
    and "grid aer \<noteq> [] \<and> length (trans aer) = length (grid aer)"
    and "grid umg \<noteq> [] \<and> length (trans umg) = length (grid umg)"
  shows "trans_total wavelengths ray oz water aer umg
           = Inr (map (\<lambda>x. interp1 x (grid ray) (trans ray) * interp1 x (grid oz) (trans oz)
                          * interp1 x (grid water) (trans water) * interp1 x (grid aer) (trans aer)
                          * interp1 x (grid umg) (trans umg)) wavelengths)"
  using assms by (simp add: trans_total_def interp_ok map2_map_map)

text \<open>
  C7. For five components, each on its own strictly increasing grid with one value per
  grid point, and for any target grid, the total transmission at a target wavelength is
  the product of the five interpolated values; each interpolated value is the clamped
  linear interpolation of its component: the first value at and below the grid, the last
  value at and above it, and the value on the straight line between two neighbouring
  grid points.
\<close>

theorem combiner_definition:
  assumes "component_ok ray" and "component_ok oz" and "component_ok water"
    and "component_ok aer" and "component_ok umg"
  shows "trans_total wavelengths ray oz water aer umg
           = Inr (map (\<lambda>x. interp1 x (grid ray) (trans ray) * interp1 x (grid oz) (trans oz)
                          * interp1 x (grid water) (trans water) * interp1 x (grid aer) (trans aer)
                          * interp1 x (grid umg) (trans umg)) wavelengths)
       \<and> (\<forall>c\<in>set [ray, oz, water, aer, umg]. \<forall>x.
             clamped_linear (grid c) (trans c) x (interp1 x (grid c) (trans c)))"
proof
  show "trans_total wavelengths ray oz water aer umg
           = Inr (map (\<lambda>x. interp1 x (grid ray) (trans ray) * interp1 x (grid oz) (trans oz)
                          * interp1 x (grid water) (trans water) * interp1 x (grid aer) (trans aer)
                          * interp1 x (grid umg) (trans umg)) wavelengths)"
    using assms by (intro trans_total_ok) (simp_all add: component_ok_def)
next
  show "\<forall>c\<in>set [ray, oz, water, aer, umg]. \<forall>x.
             clamped_linear (grid c) (trans c) x (interp1 x (grid c) (trans c))"
    using assms by (auto intro: interp1_clamped_linear)
qed

lemma component_ok_two_points: "component_ok two_points"
  by (simp add: component_ok_def two_points_def)

theorem combiner_definition_witness:
  "component_ok two_points
   \<and> trans_total [300, 500, 700] two_points two_points two_points two_points two_points
       = Inr [1 / 32, 243 / 1024, 1]
   \<and> clamped_linear (grid two_points) (trans two_points) 300 (1 / 2)
   \<and> clamped_linear (grid two_points) (trans two_points) 500 (3 / 4)
   \<and> clamped_linear (grid two_points) (trans two_points) 700 1"
proof -
  have h: "component_ok two_points"
    by (simp add: component_ok_def two_points_def)
  have v: "interp1 300 (grid two_points) (trans two_points) = 1 / 2"
    "interp1 500 (grid two_points) (trans two_points) = 3 / 4"
    "interp1 700 (grid two_points) (trans two_points) = 1"
    by (simp_all add: interp1_def two_points_def)
  note inst = combiner_definition [OF h h h h h, of "[300, 500, 700]"]
  have t: "trans_total [300, 500, 700] two_points two_points two_points two_points two_points
       = Inr [1 / 32, 243 / 1024, 1]"
    using inst by (simp add: v)
  have "clamped_linear (grid two_points) (trans two_points) x
          (interp1 x (grid two_points) (trans two_points))" for x
    using inst by simp
  from this [of 300] this [of 500] this [of 700]
  have "clamped_linear (grid two_points) (trans two_points) 300 (1 / 2)"
    and "clamped_linear (grid two_points) (trans two_points) 500 (3 / 4)"
    and "clamped_linear (grid two_points) (trans two_points) 700 1"
    by (simp_all only: v)
  with h t show ?thesis by blast
qed

lemma interp_cases:
  "interp x xp fp = (if xp = [] \<or> length fp \<noteq> length xp then Inl ValueError
                     else Inr (map (\<lambda>v. interp1 v xp fp) x))"
  by (simp add: interp_def)

text \<open>
  C8, as the code has it. The combination raises exactly when some component has an
  empty grid or a transmission array whose length differs from that of its grid (the
  \<^verbatim>\<open>ValueError\<close> of \<^verbatim>\<open>np.interp\<close>). In every other case it produces a total of the
  length of the target grid: also for components of a single point, for an empty target
  grid and for a target grid that is not monotonic.
\<close>

theorem combiner_failures:
  "((\<exists>e. trans_total wavelengths ray oz water aer umg = Inl e) \<longleftrightarrow>
      (\<exists>c\<in>set [ray, oz, water, aer, umg]. grid c = [] \<or> length (trans c) \<noteq> length (grid c)))
   \<and> ((\<forall>c\<in>set [ray, oz, water, aer, umg]. grid c \<noteq> [] \<and> length (trans c) = length (grid c)) \<longrightarrow>
      (\<exists>tot. trans_total wavelengths ray oz water aer umg = Inr tot
             \<and> length tot = length wavelengths))"
  by (simp add: trans_total_def interp_cases)

theorem combiner_failures_witness:
  "grid one_point \<noteq> [] \<and> length (trans one_point) = length (grid one_point)
   \<and> (\<exists>tot. trans_total [600, 400] one_point one_point one_point one_point one_point = Inr tot
             \<and> length tot = length [600, 400 :: real])
   \<and> grid (one_point\<lparr>grid := []\<rparr>) = []
   \<and> (\<exists>e. trans_total [600, 400] one_point one_point (one_point\<lparr>grid := []\<rparr>) one_point one_point
             = Inl e)"
  using combiner_failures [of "[600, 400]" one_point one_point one_point one_point one_point]
    combiner_failures [of "[600, 400]" one_point one_point "one_point\<lparr>grid := []\<rparr>" one_point one_point]
  by (simp add: one_point_def)

text \<open>
  C8, as the claim states it, fails: components of a single point combine without an
  error on a target grid that is not monotonic and on an empty target grid.
\<close>

theorem combiner_failures_counterexample:
  "length (grid one_point) < 2 \<and> \<not> sorted [600, 400 :: real]
   \<and> trans_total [600, 400] one_point one_point one_point one_point one_point
       = Inr [1 / 32, 1 / 32]
   \<and> trans_total [] one_point one_point one_point one_point one_point = Inr []"
  by (simp add: trans_total_def interp_def interp1_def one_point_def)

end
